theory Spec2Isabelle
  imports Complex_Main
begin

section \<open>The aerodynamic section model of \<^verbatim>\<open>xrotor/model.py\<close>\<close>

text \<open>
  The development embeds class \<^verbatim>\<open>Section\<close> of \<^verbatim>\<open>src/xrotor/model.py\<close>: its
  constructor, the six coefficient methods and the static method \<^verbatim>\<open>fit_polar\<close>.

  Numbers. Python's floats and numpy's float64 are idealised as \<^typ>\<open>real\<close>: rounding,
  overflow and the non-finite values are outside the model. Where Python raises on a
  float operation (division by a zero divisor) the model returns an error value. Where
  numpy delivers \<^verbatim>\<open>nan\<close> or \<^verbatim>\<open>inf\<close> with a warning instead of raising, the model
  returns an error value as well, since a real number cannot stand for the result:
  \<open>NotANumber\<close> for the mean of an empty array, and \<open>ZeroDivisionError\<close> for a zero
  divisor also when the attributes are float64 (as they are inside \<^verbatim>\<open>fit_polar\<close>).

  Effects. A method receives the object \<^verbatim>\<open>self\<close> and could assign to its attributes,
  so a method is a function from the object to a result and the object afterwards.
  An exception is a result \<open>Inl e\<close>.
\<close>

subsection \<open>Errors and methods\<close>

datatype error = IndexError | ZeroDivisionError | ValueError | RuntimeError | NotANumber

type_synonym 'a result = "error + 'a"

definition bindE :: "'a result \<Rightarrow> ('a \<Rightarrow> 'b result) \<Rightarrow> 'b result" where
  "bindE m f = (case m of Inl e \<Rightarrow> Inl e | Inr v \<Rightarrow> f v)"

record Section =
  a_0 :: real
  dClda :: real
  Cl_max :: real
  Cl_min :: real
  dClda_stall :: real
  dCl_stall :: real
  Cd_min :: real
  Cl_Cd_min :: real
  dCddCl2 :: real
  Cm_const :: real
  M_crit :: real
  Re_attr :: real
  Re_exp :: real

type_synonym 'a on_self = "Section \<Rightarrow> 'a result \<times> Section"

definition returnS :: "'a \<Rightarrow> 'a on_self" where
  "returnS v = (\<lambda>self. (Inr v, self))"

definition raiseS :: "error \<Rightarrow> 'a on_self" where
  "raiseS e = (\<lambda>self. (Inl e, self))"

definition bindS :: "'a on_self \<Rightarrow> ('a \<Rightarrow> 'b on_self) \<Rightarrow> 'b on_self" where
  "bindS m f = (\<lambda>self. case m self of
                   (Inl e, self') \<Rightarrow> (Inl e, self')
                 | (Inr v, self') \<Rightarrow> f v self')"

definition attr :: "(Section \<Rightarrow> 'a) \<Rightarrow> 'a on_self" where
  \<comment> \<open>reading an attribute, \<^verbatim>\<open>self.name\<close>\<close>
  "attr g = (\<lambda>self. (Inr (g self), self))"

definition divS :: "real \<Rightarrow> real \<Rightarrow> real on_self" where
  \<comment> \<open>float division \<^verbatim>\<open>x / y\<close>: Python raises on a zero divisor\<close>
  "divS x y = (if y = 0 then raiseS ZeroDivisionError else returnS (x / y))"

subsection \<open>Construction\<close>

definition positional :: "real list \<Rightarrow> nat \<Rightarrow> real" where
  \<comment> \<open>\<^verbatim>\<open>0. if len(args) < i + 1 else args[i]\<close>\<close>
  "positional args i = (if length args < i + 1 then 0 else args ! i)"

definition keyword :: "(string \<rightharpoonup> real) \<Rightarrow> string \<Rightarrow> real" where
  \<comment> \<open>\<^verbatim>\<open>0. if name not in kwargs else kwargs[name]\<close>\<close>
  "keyword kwargs name = (if name \<notin> dom kwargs then 0 else the (kwargs name))"

definition Section_init :: "real list \<Rightarrow> (string \<rightharpoonup> real) \<Rightarrow> Section" where
  "Section_init args kwargs =
     \<lparr> a_0 = positional args 0,
       dClda = positional args 1,
       Cl_max = positional args 2,
       Cl_min = positional args 3,
       dClda_stall = positional args 4,
       dCl_stall = positional args 5,
       Cd_min = positional args 6,
       Cl_Cd_min = positional args 7,
       dCddCl2 = positional args 8,
       Cm_const = keyword kwargs ''Cm_const'',
       M_crit = keyword kwargs ''M_crit'',
       Re_attr = keyword kwargs ''Re'',
       Re_exp = keyword kwargs ''Re_exp'' \<rparr>"

subsection \<open>The coefficient methods\<close>

definition cl_lin :: "real \<Rightarrow> real on_self" where
  "cl_lin alpha =
     bindS (attr a_0) (\<lambda>a0.
     bindS (attr dClda) (\<lambda>slope.
     returnS ((alpha - a0) * pi / 180 * slope)))"

definition delta_cl_nl :: "real \<Rightarrow> real on_self" where
  "delta_cl_nl alpha =
     bindS (cl_lin alpha) (\<lambda>cl_lin_v.
     bindS (attr dCl_stall) (\<lambda>width.
     bindS (attr Cl_max) (\<lambda>clmax.
     bindS (divS (cl_lin_v - clmax) width) (\<lambda>up.
     bindS (attr Cl_min) (\<lambda>clmin.
     bindS (divS (clmin - cl_lin_v) width) (\<lambda>lo.
     bindS (divS (1 + exp up) (1 + exp lo)) (\<lambda>ratio.
     returnS (width * ln ratio))))))))"

definition cl :: "real \<Rightarrow> real on_self" where
  "cl alpha =
     bindS (cl_lin alpha) (\<lambda>lin.
     bindS (attr dClda_stall) (\<lambda>post.
     bindS (attr dClda) (\<lambda>slope.
     bindS (divS post slope) (\<lambda>r.
     bindS (delta_cl_nl alpha) (\<lambda>d.
     returnS (lin - (1 - r) * d))))))"

definition cd_lin :: "real \<Rightarrow> real on_self" where
  "cd_lin alpha =
     bindS (attr Cd_min) (\<lambda>cdmin.
     bindS (attr dCddCl2) (\<lambda>curv.
     bindS (cl alpha) (\<lambda>c.
     bindS (attr Cl_Cd_min) (\<lambda>c0.
     returnS (cdmin + curv * (c - c0) ^ 2)))))"

definition delta_cd_nl :: "real \<Rightarrow> real on_self" where
  "delta_cd_nl alpha =
     bindS (attr dClda_stall) (\<lambda>post.
     bindS (attr dClda) (\<lambda>slope.
     bindS (divS post slope) (\<lambda>r.
     bindS (delta_cl_nl alpha) (\<lambda>d.
     bindS (attr dClda) (\<lambda>slope'.
     bindS (divS ((1 - r) * d) slope') (\<lambda>q.
     returnS (2 * q ^ 2)))))))"

definition cd :: "real \<Rightarrow> real on_self" where
  "cd alpha =
     bindS (cd_lin alpha) (\<lambda>lin.
     bindS (delta_cd_nl alpha) (\<lambda>off.
     returnS (lin + off)))"

subsection \<open>Arrays\<close>

text \<open>
  A two-dimensional numpy array is its number of columns \<^verbatim>\<open>shape[1]\<close> and its rows;
  every row has that many entries. A method applied to an array of angles works
  elementwise.
\<close>

record ndarray =
  shape1 :: nat
  rows :: "real list list"

definition wf_ndarray :: "ndarray \<Rightarrow> bool" where
  "wf_ndarray polar = list_all (\<lambda>r. length r = shape1 polar) (rows polar)"

definition column :: "ndarray \<Rightarrow> nat \<Rightarrow> real list result" where
  \<comment> \<open>\<^verbatim>\<open>polar[:, j]\<close>\<close>
  "column polar j =
     (if j < shape1 polar then Inr (map (\<lambda>r. r ! j) (rows polar)) else Inl IndexError)"

definition rows_of_column :: "ndarray \<Rightarrow> nat list \<Rightarrow> nat \<Rightarrow> real list result" where
  \<comment> \<open>\<^verbatim>\<open>polar[indices, j]\<close>\<close>
  "rows_of_column polar indices j =
     (if j < shape1 polar \<and> list_all (\<lambda>i. i < length (rows polar)) indices
      then Inr (map (\<lambda>i. rows polar ! i ! j) indices) else Inl IndexError)"

fun vectorized :: "(real \<Rightarrow> real on_self) \<Rightarrow> real list \<Rightarrow> real list on_self" where
  "vectorized m [] = returnS []"
| "vectorized m (alpha # alphas) =
     bindS (m alpha) (\<lambda>v. bindS (vectorized m alphas) (\<lambda>vs. returnS (v # vs)))"

definition np_mean :: "real list \<Rightarrow> real result" where
  \<comment> \<open>numpy gives \<^verbatim>\<open>nan\<close> (and a warning) for an empty array\<close>
  "np_mean xs = (if xs = [] then Inl NotANumber else Inr (sum_list xs / real (length xs)))"

text \<open>
  \<^verbatim>\<open>np.unique(ar, return_index=True)\<close> sorts the positions by value with a stable sort,
  keeps every entry that differs from its predecessor in sorted order, and returns the
  kept values together with the kept positions.
\<close>

definition argsort_pairs :: "real list \<Rightarrow> (real \<times> nat) list" where
  "argsort_pairs ar = sort_key fst (zip ar [0..<length ar])"

fun drop_repeats :: "real \<Rightarrow> (real \<times> nat) list \<Rightarrow> (real \<times> nat) list" where
  "drop_repeats prev [] = []"
| "drop_repeats prev (p # ps) =
     (if fst p \<noteq> prev then p # drop_repeats (fst p) ps else drop_repeats (fst p) ps)"

definition np_unique :: "real list \<Rightarrow> real list \<times> nat list" where
  "np_unique ar =
     (case argsort_pairs ar of
        [] \<Rightarrow> ([], [])
      | p # ps \<Rightarrow> (let kept = p # drop_repeats (fst p) ps in (map fst kept, map snd kept)))"

text \<open>
  \<^verbatim>\<open>np.interp(x, xp, fp)\<close> for increasing sample points: the first sample value to the left
  of the samples, the last one to their right, the sample value at a sample point and
  the chord between two neighbours otherwise. Empty sample points raise.
\<close>

fun interp_from :: "real \<Rightarrow> real \<Rightarrow> real \<Rightarrow> (real \<times> real) list \<Rightarrow> real" where
  "interp_from x x0 f0 [] = f0"
| "interp_from x x0 f0 ((x1, f1) # rest) =
     (if x < x1
      then (if x \<le> x0 then f0 else (f1 - f0) / (x1 - x0) * (x - x0) + f0)
      else interp_from x x1 f1 rest)"

definition np_interp :: "real \<Rightarrow> real list \<Rightarrow> real list \<Rightarrow> real result" where
  "np_interp x xp fp =
     (if length fp \<noteq> length xp then Inl ValueError
      else case zip xp fp of
             [] \<Rightarrow> Inl ValueError
           | (x0, f0) # rest \<Rightarrow> Inr (interp_from x x0 f0 rest))"

subsection \<open>Fitting a polar\<close>

text \<open>
  The nested functions \<^verbatim>\<open>e\<close>, \<^verbatim>\<open>f\<close> and \<^verbatim>\<open>df\<close> of \<^verbatim>\<open>fit_polar\<close> carry its name as a prefix.
  \<^verbatim>\<open>scipy.optimize.minimize\<close> and \<^verbatim>\<open>scipy.optimize.newton\<close> are library code: \<^verbatim>\<open>fit_polar\<close>
  takes them as parameters. The minimiser receives the objective, the starting point and
  the bounds and yields the vector \<^verbatim>\<open>res.x\<close>; the root finder receives the function, the
  starting point and the derivative and yields the root; either may raise.
\<close>

type_synonym minimizer =
  "(real list \<Rightarrow> real result) \<Rightarrow> real list \<Rightarrow> (real \<times> real) list \<Rightarrow> real list result"

type_synonym root_finder =
  "(real \<Rightarrow> real result) \<Rightarrow> real \<Rightarrow> (real \<Rightarrow> real result) \<Rightarrow> real result"

definition pydiv :: "real \<Rightarrow> real \<Rightarrow> real result" where
  "pydiv x y = (if y = 0 then Inl ZeroDivisionError else Inr (x / y))"

definition squared_errors :: "real list \<Rightarrow> real list \<Rightarrow> real list" where
  \<comment> \<open>\<^verbatim>\<open>(model - table) ** 2\<close> on two arrays of the table's length\<close>
  "squared_errors model table = map2 (\<lambda>u v. (u - v) ^ 2) model table"

definition fit_polar_e :: "real list \<Rightarrow> real list \<Rightarrow> real list \<Rightarrow> real list \<Rightarrow> real result" where
  \<comment> \<open>the closure \<^verbatim>\<open>e(x)\<close> over the columns \<^verbatim>\<open>a\<close>, \<^verbatim>\<open>cl\<close> and \<^verbatim>\<open>cd\<close>\<close>
  "fit_polar_e a cl_col cd_col x =
     bindE (fst (vectorized cl a (Section_init x Map.empty))) (\<lambda>cls.
     bindE (np_mean (squared_errors cls cl_col)) (\<lambda>ml.
     bindE (fst (vectorized cd a (Section_init x Map.empty))) (\<lambda>cds.
     bindE (np_mean (squared_errors cds cd_col)) (\<lambda>md.
     Inr (sqrt ml + sqrt md)))))"

definition gamma :: real where
  "gamma = 1.4"

definition fit_polar_f :: "real \<Rightarrow> real \<Rightarrow> real result" where
  \<comment> \<open>the closure \<^verbatim>\<open>f(M)\<close> over \<^verbatim>\<open>cp\<close>; the inner divisor \<^verbatim>\<open>2 * (1 + ...)\<close> is at least 2\<close>
  "fit_polar_f cp M =
     bindE (pydiv 2 (gamma * M ^ 2)) (\<lambda>k.
     Inr (k * (((gamma + 1) / (2 * (1 + 0.5 * (gamma - 1) * M ^ 2))) powr (gamma / (1 - gamma)) - 1)
          - cp))"

definition fit_polar_df :: "real \<Rightarrow> real result" where
  "fit_polar_df M =
     bindE (pydiv (- 4) (gamma * M ^ 3)) (\<lambda>k3.
     let a = k3 * (((gamma + 1) / (2 * (1 + 0.5 * (gamma - 1) * M ^ 2))) powr (gamma / (1 - gamma)) - 1) in
     bindE (pydiv 2 (gamma * M ^ 2)) (\<lambda>k2.
     let b = - k2 * (gamma / (1 - gamma))
               * ((gamma + 1) / (2 * (1 + 0.5 * (gamma - 1) * M ^ 2))) powr (gamma / (1 - gamma) - 1)
               * ((gamma + 1) / (2 * (1 + 0.5 * (gamma - 1) * M ^ 2)) ^ 2) * 2 * (gamma - 1) * M in
     Inr (a + b)))"

definition cp_at_zero :: "ndarray \<Rightarrow> real result" where
  \<comment> \<open>lines 241 and 242: \<^verbatim>\<open>np.unique\<close> on the angles, \<^verbatim>\<open>np.interp\<close> at 0 over column 5\<close>
  "cp_at_zero polar =
     bindE (column polar 0) (\<lambda>angles.
     case np_unique angles of (a_unique, indices) \<Rightarrow>
     bindE (rows_of_column polar indices 5) (\<lambda>samples.
     np_interp 0 a_unique samples))"

definition bounds :: "(real \<times> real) list" where
  "bounds = [(- 10, 10), (1, 20), (0, 3), (- 3, 0), (- 2, 2), (0.1, 0.3),
             (0, 0.5), (- 1, 1), (0, 1)]"

definition fit_polar :: "minimizer \<Rightarrow> root_finder \<Rightarrow> ndarray \<Rightarrow> Section result" where
  "fit_polar minimize newton polar =
     bindE (column polar 0) (\<lambda>a.
     bindE (column polar 1) (\<lambda>cl_col.
     bindE (column polar 2) (\<lambda>cd_col.
     bindE (minimize (fit_polar_e a cl_col cd_col) (replicate 9 1) bounds) (\<lambda>x.
     bindE (if shape1 polar = 9
            then bindE (cp_at_zero polar) (\<lambda>cp. newton (fit_polar_f cp) 1 fit_polar_df)
            else Inr 0.6) (\<lambda>mcrit.
     bindE (column polar 4) (\<lambda>cm_col.
     bindE (np_mean cm_col) (\<lambda>cm.
     Inr (Section_init x [''Cm_const'' \<mapsto> cm, ''M_crit'' \<mapsto> mcrit]))))))))"

subsection \<open>The formulas of the specification\<close>

text \<open>
  The specification states the model in closed form, over the reals and with ordinary
  division. These definitions follow its words; the theorems compare the methods with them.
\<close>

definition spec_linear_cl :: "Section \<Rightarrow> real \<Rightarrow> real" where
  "spec_linear_cl s alpha = (alpha - a_0 s) * pi / 180 * dClda s"

definition spec_stall_offset_cl :: "Section \<Rightarrow> real \<Rightarrow> real" where
  "spec_stall_offset_cl s alpha =
     dCl_stall s * ln ((1 + exp ((spec_linear_cl s alpha - Cl_max s) / dCl_stall s))
                       / (1 + exp ((Cl_min s - spec_linear_cl s alpha) / dCl_stall s)))"

definition spec_cl :: "Section \<Rightarrow> real \<Rightarrow> real" where
  "spec_cl s alpha =
     spec_linear_cl s alpha - (1 - dClda_stall s / dClda s) * spec_stall_offset_cl s alpha"

definition spec_cd :: "Section \<Rightarrow> real \<Rightarrow> real" where
  "spec_cd s alpha =
     Cd_min s + dCddCl2 s * (spec_cl s alpha - Cl_Cd_min s) ^ 2
     + 2 * ((1 - dClda_stall s / dClda s) * spec_stall_offset_cl s alpha / dClda s) ^ 2"

definition spec_rms :: "real list \<Rightarrow> real list \<Rightarrow> real" where
  \<comment> \<open>the root-mean-square error of model values against table values\<close>
  "spec_rms model table =
     sqrt ((\<Sum>i<length table. (model ! i - table ! i) ^ 2) / real (length table))"


subsection \<open>Inputs for running the model\<close>

text \<open>
  A library call is represented in a run by its outcome: a minimiser that ends at the
  vector \<open>x\<close>, a root finder that ends at \<open>r\<close>.
\<close>

definition minimize_returning :: "real list \<Rightarrow> minimizer" where
  "minimize_returning x = (\<lambda>objective x0 bnds. Inr x)"

definition newton_returning :: "real \<Rightarrow> root_finder" where
  "newton_returning r = (\<lambda>func x0 fprime. Inr r)"

definition fitted_x :: "real list" where
  "fitted_x = [- 1, 6, 1.2, - 0.8, 0.1, 0.2, 0.01, 0.2, 0.01]"

definition scenario_polar :: ndarray where
  \<comment> \<open>the four-column table of the specification's concrete scenario\<close>
  "scenario_polar =
     \<lparr> shape1 = 4,
       rows = [[- 5, - 0.3, 0.01, 0],
               [0, 0.1, 0.008, 0],
               [5, 0.6, 0.012, 0],
               [10, 0.95, 0.03, 0],
               [15, 0.9, 0.06, 0]] \<rparr>"

definition pressure_polar :: ndarray where
  \<comment> \<open>the same table with a fifth column, the pressure coefficient\<close>
  "pressure_polar =
     \<lparr> shape1 = 5,
       rows = [[- 5, - 0.3, 0.01, 0, - 0.5],
               [0, 0.1, 0.008, 0, - 0.5],
               [5, 0.6, 0.012, 0, - 0.5],
               [10, 0.95, 0.03, 0, - 0.5],
               [15, 0.9, 0.06, 0, - 0.5]] \<rparr>"


section \<open>Properties\<close>

subsection \<open>Running a method\<close>

lemma returnS_run: "returnS v self = (Inr v, self)"
  by (simp add: returnS_def)

lemma bindS_attr: "bindS (attr g) k self = k (g self) self"
  by (simp add: bindS_def attr_def)

lemma bindS_divS:
  "bindS (divS x y) k self = (if y = 0 then (Inl ZeroDivisionError, self) else k (x / y) self)"
  by (simp add: bindS_def divS_def raiseS_def returnS_def)

lemma bindS_value:
  "m self = (Inr v, self') \<Longrightarrow> bindS m k self = k v self'"
  by (simp add: bindS_def)

lemma bindS_error:
  "m self = (Inl err, self') \<Longrightarrow> bindS m k self = (Inl err, self')"
  by (simp add: bindS_def)

lemmas run_simps = returnS_run bindS_attr bindS_divS

subsection \<open>What the coefficient methods return\<close>

lemma cl_lin_run: "cl_lin alpha self = (Inr (spec_linear_cl self alpha), self)"
  by (simp add: cl_lin_def run_simps spec_linear_cl_def)

lemma ratio_nonzero: "1 + exp (u::real) \<noteq> 0"
  using exp_gt_zero [of u] by linarith

lemma delta_cl_nl_run:
  assumes "dCl_stall self \<noteq> 0"
  shows "delta_cl_nl alpha self = (Inr (spec_stall_offset_cl self alpha), self)"
  using assms
  by (simp add: delta_cl_nl_def bindS_value [OF cl_lin_run] run_simps
      ratio_nonzero spec_stall_offset_cl_def)

lemma delta_cl_nl_zero:
  assumes "dCl_stall self = 0"
  shows "delta_cl_nl alpha self = (Inl ZeroDivisionError, self)"
  using assms
  by (simp add: delta_cl_nl_def bindS_value [OF cl_lin_run] run_simps)

lemma cl_run:
  assumes "dClda self \<noteq> 0" "dCl_stall self \<noteq> 0"
  shows "cl alpha self = (Inr (spec_cl self alpha), self)"
  using assms
  by (simp add: cl_def bindS_value [OF cl_lin_run] run_simps
      bindS_value [OF delta_cl_nl_run] spec_cl_def)

lemma cl_zero_slope:
  assumes "dClda self = 0"
  shows "cl alpha self = (Inl ZeroDivisionError, self)"
  using assms
  by (simp add: cl_def bindS_value [OF cl_lin_run] run_simps)

lemma cl_zero_width:
  assumes "dCl_stall self = 0"
  shows "cl alpha self = (Inl ZeroDivisionError, self)"
  using assms
  by (simp add: cl_def bindS_value [OF cl_lin_run] run_simps bindS_error [OF delta_cl_nl_zero])

lemma cd_lin_run:
  assumes "dClda self \<noteq> 0" "dCl_stall self \<noteq> 0"
  shows "cd_lin alpha self =
    (Inr (Cd_min self + dCddCl2 self * (spec_cl self alpha - Cl_Cd_min self) ^ 2), self)"
  using assms
  by (simp add: cd_lin_def run_simps bindS_value [OF cl_run])

lemma delta_cd_nl_run:
  assumes "dClda self \<noteq> 0" "dCl_stall self \<noteq> 0"
  shows "delta_cd_nl alpha self =
    (Inr (2 * ((1 - dClda_stall self / dClda self) * spec_stall_offset_cl self alpha / dClda self) ^ 2), self)"
  using assms
  by (simp add: delta_cd_nl_def run_simps bindS_value [OF delta_cl_nl_run])

lemma cd_run:
  assumes "dClda self \<noteq> 0" "dCl_stall self \<noteq> 0"
  shows "cd alpha self = (Inr (spec_cd self alpha), self)"
  using assms
  by (simp add: cd_def bindS_value [OF cd_lin_run] bindS_value [OF delta_cd_nl_run]
      run_simps spec_cd_def)

lemma cd_lin_error:
  assumes "dClda self = 0 \<or> dCl_stall self = 0"
  shows "cd_lin alpha self = (Inl ZeroDivisionError, self)"
  using assms
  by (auto simp add: cd_lin_def run_simps bindS_error [OF cl_zero_slope] bindS_error [OF cl_zero_width])

lemma delta_cd_nl_error:
  assumes "dClda self = 0 \<or> dCl_stall self = 0"
  shows "delta_cd_nl alpha self = (Inl ZeroDivisionError, self)"
  using assms
  by (auto simp add: delta_cd_nl_def run_simps bindS_error [OF delta_cl_nl_zero])

lemma cd_error:
  assumes "dClda self = 0 \<or> dCl_stall self = 0"
  shows "cd alpha self = (Inl ZeroDivisionError, self)"
  using assms by (simp add: cd_def bindS_error [OF cd_lin_error])

subsection \<open>Evaluation and the object\<close>

lemma bindS_frame:
  assumes "\<And>s. snd (m s) = s" and "\<And>v s. snd (k v s) = s"
  shows "snd (bindS m k self) = self"
proof (cases "m self")
  case (Pair r self')
  have same: "self' = self" using assms(1) [of self] Pair by simp
  show ?thesis
  proof (cases r)
    case (Inl err)
    with Pair same show ?thesis by (simp add: bindS_def)
  next
    case (Inr v)
    with Pair same assms(2) [of v self] show ?thesis by (simp add: bindS_def)
  qed
qed

lemma attr_frame: "snd (attr g self) = self"
  by (simp add: attr_def)

lemma returnS_frame: "snd (returnS v self) = self"
  by (simp add: returnS_def)

lemma divS_frame: "snd (divS x y self) = self"
  by (simp add: divS_def raiseS_def returnS_def)

lemma cl_lin_frame: "snd (cl_lin alpha self) = self"
  unfolding cl_lin_def by (intro bindS_frame attr_frame returnS_frame)

lemma delta_cl_nl_frame: "snd (delta_cl_nl alpha self) = self"
  unfolding delta_cl_nl_def
  by (intro bindS_frame attr_frame returnS_frame divS_frame cl_lin_frame)

lemma cl_frame: "snd (cl alpha self) = self"
  unfolding cl_def
  by (intro bindS_frame attr_frame returnS_frame divS_frame cl_lin_frame delta_cl_nl_frame)

lemma cd_lin_frame: "snd (cd_lin alpha self) = self"
  unfolding cd_lin_def
  by (intro bindS_frame attr_frame returnS_frame cl_frame)

lemma delta_cd_nl_frame: "snd (delta_cd_nl alpha self) = self"
  unfolding delta_cd_nl_def
  by (intro bindS_frame attr_frame returnS_frame divS_frame delta_cl_nl_frame)

lemma cd_frame: "snd (cd alpha self) = self"
  unfolding cd_def
  by (intro bindS_frame returnS_frame cd_lin_frame delta_cd_nl_frame)

lemma vectorized_frame:
  assumes "\<And>alpha s. snd (m alpha s) = s"
  shows "snd (vectorized m alphas self) = self"
proof (induction alphas arbitrary: self)
  case Nil
  show ?case by (simp add: returnS_def)
next
  case (Cons alpha alphas)
  show ?case
    unfolding vectorized.simps
    by (intro bindS_frame returnS_frame assms Cons.IH)
qed

text \<open>
  Claim C9. For every Section and every angle of attack, each of the six coefficient
  methods \<open>cl_lin\<close>, \<open>delta_cl_nl\<close>, \<open>cl\<close>, \<open>cd_lin\<close>, \<open>delta_cd_nl\<close> and \<open>cd\<close> hands
  back the object it received: all thirteen attributes are unchanged, whether the method
  returns a value or raises. The same holds for an array of angles.
\<close>

theorem evaluation_leaves_section_unchanged:
  "snd (cl_lin alpha self) = self \<and> snd (delta_cl_nl alpha self) = self
   \<and> snd (cl alpha self) = self \<and> snd (cd_lin alpha self) = self
   \<and> snd (delta_cd_nl alpha self) = self \<and> snd (cd alpha self) = self
   \<and> snd (vectorized cl alphas self) = self \<and> snd (vectorized cd alphas self) = self"
  by (simp add: cl_lin_frame delta_cl_nl_frame cl_frame cd_lin_frame delta_cd_nl_frame
      cd_frame vectorized_frame)

subsection \<open>The drag and lift formulas\<close>

text \<open>
  Claim C6. For every Section with \<open>dClda \<noteq> 0\<close> and \<open>dCl_stall > 0\<close> and every angle of
  attack, \<open>cd\<close> returns \<open>Cd_min + dCddCl2 * (cl - Cl_Cd_min)\<^sup>2\<close> plus the stall penalty
  \<open>2 * ((1 - dClda_stall / dClda) * delta_cl_nl / dClda)\<^sup>2\<close>, where \<open>cl\<close> and \<open>delta_cl_nl\<close>
  are what the methods of these names return, the closed forms of the specification.
\<close>

theorem cd_is_parabola_plus_stall_penalty:
  assumes "dClda s \<noteq> 0" and "0 < dCl_stall s"
  shows "fst (cd alpha s) =
           Inr (Cd_min s + dCddCl2 s * (spec_cl s alpha - Cl_Cd_min s) ^ 2
                + 2 * ((1 - dClda_stall s / dClda s) * spec_stall_offset_cl s alpha / dClda s) ^ 2)
         \<and> fst (cl alpha s) = Inr (spec_cl s alpha)
         \<and> fst (delta_cl_nl alpha s) = Inr (spec_stall_offset_cl s alpha)
         \<and> fst (cd_lin alpha s) = Inr (Cd_min s + dCddCl2 s * (spec_cl s alpha - Cl_Cd_min s) ^ 2)
         \<and> fst (delta_cd_nl alpha s) =
             Inr (2 * ((1 - dClda_stall s / dClda s) * spec_stall_offset_cl s alpha / dClda s) ^ 2)"
proof -
  from assms have ok: "dClda s \<noteq> 0" "dCl_stall s \<noteq> 0" by simp_all
  show ?thesis
    by (simp add: cd_run [OF ok] cl_run [OF ok] delta_cl_nl_run [OF ok(2)] cd_lin_run [OF ok]
        delta_cd_nl_run [OF ok] spec_cd_def)
qed

lemma fitted_section:
  "Section_init fitted_x Map.empty =
     \<lparr> a_0 = - 1, dClda = 6, Cl_max = 1.2, Cl_min = - 0.8, dClda_stall = 0.1, dCl_stall = 0.2,
       Cd_min = 0.01, Cl_Cd_min = 0.2, dCddCl2 = 0.01, Cm_const = 0, M_crit = 0, Re_attr = 0,
       Re_exp = 0 \<rparr>"
  by (simp add: Section_init_def positional_def keyword_def fitted_x_def)

theorem cd_is_parabola_plus_stall_penalty_witness:
  "dClda (Section_init fitted_x Map.empty) \<noteq> 0 \<and> 0 < dCl_stall (Section_init fitted_x Map.empty)
   \<and> fst (cd 5 (Section_init fitted_x Map.empty)) = Inr (spec_cd (Section_init fitted_x Map.empty) 5)"
proof -
  have h1: "dClda (Section_init fitted_x Map.empty) \<noteq> 0" by (simp add: fitted_section)
  have h2: "0 < dCl_stall (Section_init fitted_x Map.empty)" by (simp add: fitted_section)
  show ?thesis
    using h1 h2 cd_is_parabola_plus_stall_penalty [OF h1 h2, of 5] by (simp add: spec_cd_def)
qed




subsection \<open>Construction\<close>

lemma positional_nth:
  "i < 9 \<Longrightarrow> (take 9 args @ replicate (9 - length args) 0) ! i = positional args i"
  by (auto simp add: positional_def nth_append)

lemma nine_positionals:
  "[positional args 0, positional args 1, positional args 2, positional args 3, positional args 4,
    positional args 5, positional args 6, positional args 7, positional args 8]
   = take 9 args @ replicate (9 - length args) 0"
proof -
  have upto: "[0..<9] = [0, 1, 2, 3, 4, 5, 6, 7, 8 :: nat]"
    by (simp add: upt_rec)
  have "map (positional args) [0..<9] = take 9 args @ replicate (9 - length args) 0"
    by (rule nth_equalityI) (auto simp add: positional_nth)
  then show ?thesis
    by (simp add: upto)
qed

text \<open>
  Claim C10. Construction checks nothing and always yields an object: the nine positional
  parameters are the first nine arguments, padded with 0 where fewer are given, the four
  keyword parameters are the keyword arguments of their names, 0 where absent, and
  \<^verbatim>\<open>Section()\<close> has all thirteen attributes 0. On that object \<open>cl\<close> (and so \<open>cd\<close>) raises
  for every angle of attack, at the division \<open>dClda_stall / dClda\<close>: evaluation is not total
  on the objects that can be constructed.
\<close>

theorem construction_defaults_and_unguarded_division:
  "Section_init [] Map.empty =
     \<lparr> a_0 = 0, dClda = 0, Cl_max = 0, Cl_min = 0, dClda_stall = 0, dCl_stall = 0,
       Cd_min = 0, Cl_Cd_min = 0, dCddCl2 = 0, Cm_const = 0, M_crit = 0, Re_attr = 0, Re_exp = 0 \<rparr>
   \<and> (let s = Section_init args kwargs in
        [a_0 s, dClda s, Cl_max s, Cl_min s, dClda_stall s, dCl_stall s, Cd_min s, Cl_Cd_min s, dCddCl2 s]
          = take 9 args @ replicate (9 - length args) 0
        \<and> [Cm_const s, M_crit s, Re_attr s, Re_exp s]
          = map (\<lambda>name. case kwargs name of None \<Rightarrow> 0 | Some v \<Rightarrow> v)
              [''Cm_const'', ''M_crit'', ''Re'', ''Re_exp''])
   \<and> fst (cl alpha (Section_init [] Map.empty)) = Inl ZeroDivisionError
   \<and> fst (cd alpha (Section_init [] Map.empty)) = Inl ZeroDivisionError"
proof -
  have zero: "dClda (Section_init [] Map.empty) = 0"
    by (simp add: Section_init_def positional_def)
  have "Section_init [] Map.empty =
     \<lparr> a_0 = 0, dClda = 0, Cl_max = 0, Cl_min = 0, dClda_stall = 0, dCl_stall = 0,
       Cd_min = 0, Cl_Cd_min = 0, dCddCl2 = 0, Cm_const = 0, M_crit = 0, Re_attr = 0, Re_exp = 0 \<rparr>"
    by (simp add: Section_init_def positional_def keyword_def)
  moreover have "[a_0 (Section_init args kwargs), dClda (Section_init args kwargs),
      Cl_max (Section_init args kwargs), Cl_min (Section_init args kwargs),
      dClda_stall (Section_init args kwargs), dCl_stall (Section_init args kwargs),
      Cd_min (Section_init args kwargs), Cl_Cd_min (Section_init args kwargs),
      dCddCl2 (Section_init args kwargs)] = take 9 args @ replicate (9 - length args) 0"
    using nine_positionals [of args] by (simp add: Section_init_def)
  moreover have "[Cm_const (Section_init args kwargs), M_crit (Section_init args kwargs),
      Re_attr (Section_init args kwargs), Re_exp (Section_init args kwargs)]
    = map (\<lambda>name. case kwargs name of None \<Rightarrow> 0 | Some v \<Rightarrow> v)
        [''Cm_const'', ''M_crit'', ''Re'', ''Re_exp'']"
    by (auto simp add: Section_init_def keyword_def dom_def split: option.splits)
  moreover have "fst (cl alpha (Section_init [] Map.empty)) = Inl ZeroDivisionError"
    by (simp add: cl_zero_slope [OF zero])
  moreover have "fst (cd alpha (Section_init [] Map.empty)) = Inl ZeroDivisionError"
    using cd_error [of "Section_init [] Map.empty" alpha] zero by simp
  ultimately show ?thesis by (simp add: Let_def)
qed

subsection \<open>Fitting: columns, the moment constant and the default critical Mach number\<close>

lemma bindE_Inr: "bindE (Inr v) k = k v"
  by (simp add: bindE_def)

lemma bindE_Inl: "bindE (Inl err) k = Inl err"
  by (simp add: bindE_def)

lemma bindE_eq_Inr: "bindE m k = Inr r \<longleftrightarrow> (\<exists>v. m = Inr v \<and> k v = Inr r)"
  by (cases m) (simp_all add: bindE_def)

lemma column_eq_Inr:
  "column polar j = Inr c \<longleftrightarrow> j < shape1 polar \<and> c = map (\<lambda>r. r ! j) (rows polar)"
  by (auto simp add: column_def)

lemma np_mean_eq_Inr:
  "np_mean xs = Inr m \<longleftrightarrow> xs \<noteq> [] \<and> m = sum_list xs / real (length xs)"
  by (auto simp add: np_mean_def)

text \<open>
  Claim C2. The claim is that a table with exactly the four columns alpha, cl, cd, cm is
  fitted, with \<open>M_crit = 0.6\<close>, and that the five-row table of the concrete scenario gives
  \<open>M_crit = 0.6\<close> and \<open>Cm_const = 0\<close>. The docstring of \<^verbatim>\<open>fit_polar\<close> asks for at least these
  four columns, but the last line reads \<^verbatim>\<open>polar[:, 4]\<close>, a fifth column: on the scenario's
  table, whatever vector the minimiser ends at, the call raises \<^verbatim>\<open>IndexError\<close> and
  returns no Section.
\<close>

theorem four_column_scenario_raises:
  "fit_polar (minimize_returning x) newton scenario_polar = Inl IndexError
   \<and> shape1 scenario_polar = 4 \<and> wf_ndarray scenario_polar"
  by (simp add: fit_polar_def column_def scenario_polar_def minimize_returning_def
      bindE_Inr bindE_Inl wf_ndarray_def)

lemma fit_polar_pressure_polar:
  "fit_polar (minimize_returning x) newton pressure_polar
     = Inr (Section_init x [''Cm_const'' \<mapsto> - 0.5, ''M_crit'' \<mapsto> 0.6])"
  by (simp add: fit_polar_def column_def pressure_polar_def minimize_returning_def
      bindE_Inr np_mean_def)

text \<open>
  Claim C3. The claim is that \<open>Cm_const\<close> is the mean of the moment column, the fourth
  column in the order alpha, cl, cd, cm of the docstring. The code takes the mean of
  \<^verbatim>\<open>polar[:, 4]\<close>, the fifth column: on the five-column table whose fourth column is 0
  throughout and whose fifth is \<open>- 0.5\<close> throughout, \<open>Cm_const\<close> is \<open>- 0.5\<close>, not 0.
\<close>

theorem moment_constant_from_fifth_column:
  "map_sum id Cm_const (fit_polar (minimize_returning x) newton pressure_polar) = Inr (- 0.5)
   \<and> bindE (column pressure_polar 3) np_mean = Inr 0
   \<and> bindE (column pressure_polar 4) np_mean = Inr (- 0.5)"
  by (simp add: fit_polar_pressure_polar Section_init_def keyword_def)
     (simp add: column_def pressure_polar_def bindE_Inr np_mean_def)




subsection \<open>Fitting: what is minimised\<close>

lemma vectorized_run:
  assumes "\<And>alpha. m alpha self = (Inr (g alpha), self)"
  shows "vectorized m alphas self = (Inr (map g alphas), self)"
proof (induction alphas)
  case Nil
  show ?case by (simp add: returnS_run)
next
  case (Cons alpha alphas)
  show ?case
    proof -
    have first: "bindS (m alpha) k self = k (g alpha) self" for k :: "real \<Rightarrow> real list on_self"
      using assms [of alpha] by (simp add: bindS_def)
    have others: "bindS (vectorized m alphas) k self = k (map g alphas) self"
      for k :: "real list \<Rightarrow> real list on_self"
      using Cons.IH by (simp add: bindS_def)
    show ?thesis
      by (simp add: first others returnS_run)
  qed
qed

lemma sum_list_squared_errors:
  assumes "length model = length table"
  shows "sum_list (squared_errors model table) = (\<Sum>i<length table. (model ! i - table ! i) ^ 2)"
proof -
  have "sum_list (squared_errors model table)
      = (\<Sum>i = 0..<length table. squared_errors model table ! i)"
    using assms by (simp add: sum_list_sum_nth squared_errors_def)
  also have "\<dots> = (\<Sum>i = 0..<length table. (model ! i - table ! i) ^ 2)"
    using assms by (intro sum.cong) (simp_all add: squared_errors_def)
  finally show ?thesis by (simp add: atLeast0LessThan)
qed

lemma np_mean_squared_errors:
  assumes "length model = length table" and "table \<noteq> []"
  shows "bindE (np_mean (squared_errors model table)) (\<lambda>m. k (sqrt m)) = k (spec_rms model table)"
proof -
  have "squared_errors model table \<noteq> []"
    using assms by (cases model; cases table) (simp_all add: squared_errors_def)
  moreover have "length (squared_errors model table) = length table"
    using assms by (simp add: squared_errors_def)
  ultimately show ?thesis
    using sum_list_squared_errors [OF assms(1)]
    by (simp add: np_mean_def bindE_Inr spec_rms_def)
qed

lemma fit_polar_e_run:
  assumes same: "length cl_col = length a" "length cd_col = length a" and rows: "a \<noteq> []"
    and slope: "dClda (Section_init y Map.empty) \<noteq> 0"
    and width: "dCl_stall (Section_init y Map.empty) \<noteq> 0"
  shows "fit_polar_e a cl_col cd_col y =
           Inr (spec_rms (map (spec_cl (Section_init y Map.empty)) a) cl_col
                + spec_rms (map (spec_cd (Section_init y Map.empty)) a) cd_col)"
proof -
  let ?s = "Section_init y Map.empty"
  have cls: "vectorized cl a ?s = (Inr (map (spec_cl ?s) a), ?s)"
    by (rule vectorized_run) (rule cl_run [OF slope width])
  have cds: "vectorized cd a ?s = (Inr (map (spec_cd ?s) a), ?s)"
    by (rule vectorized_run) (rule cd_run [OF slope width])
  have n1: "cl_col \<noteq> []" and n2: "cd_col \<noteq> []" using same rows by auto
  have l1: "length (map (spec_cl ?s) a) = length cl_col" using same by simp
  have l2: "length (map (spec_cd ?s) a) = length cd_col" using same by simp
  have "fit_polar_e a cl_col cd_col y =
      bindE (np_mean (squared_errors (map (spec_cl ?s) a) cl_col)) (\<lambda>ml.
      bindE (np_mean (squared_errors (map (spec_cd ?s) a) cd_col)) (\<lambda>md.
      Inr (sqrt ml + sqrt md)))"
    by (simp add: fit_polar_e_def cls cds bindE_Inr)
  also have "\<dots> = bindE (np_mean (squared_errors (map (spec_cd ?s) a) cd_col)) (\<lambda>md.
      Inr (spec_rms (map (spec_cl ?s) a) cl_col + sqrt md))"
    by (rule np_mean_squared_errors [OF l1 n1])
  also have "\<dots> = Inr (spec_rms (map (spec_cl ?s) a) cl_col + spec_rms (map (spec_cd ?s) a) cd_col)"
    by (rule np_mean_squared_errors [OF l2 n2])
  finally show ?thesis .
qed

lemma fit_polar_succeeds:
  assumes "fit_polar minimize newton polar = Inr s"
  shows "\<exists>x mcrit.
      2 < shape1 polar \<and> 4 < shape1 polar \<and> rows polar \<noteq> []
    \<and> minimize (fit_polar_e (map (\<lambda>r. r ! 0) (rows polar)) (map (\<lambda>r. r ! 1) (rows polar))
                   (map (\<lambda>r. r ! 2) (rows polar))) (replicate 9 1) bounds = Inr x
    \<and> (if shape1 polar = 9
        then bindE (cp_at_zero polar) (\<lambda>cp. newton (fit_polar_f cp) 1 fit_polar_df)
        else Inr 0.6) = Inr mcrit
    \<and> s = Section_init x [''Cm_const'' \<mapsto> sum_list (map (\<lambda>r. r ! 4) (rows polar)) / real (length (rows polar)),
                          ''M_crit'' \<mapsto> mcrit]"
  using assms
  unfolding fit_polar_def bindE_eq_Inr column_eq_Inr np_mean_eq_Inr
  by (elim exE conjE) auto


lemma bounds_literal:
  "bounds = [(- 10, 10), (1, 20), (0, 3), (- 3, 0), (- 2, 2), (0.1, 0.3), (0, 0.5), (- 1, 1), (0, 1)]"
  by (simp add: bounds_def)

lemma ones_literal: "replicate 9 (1::real) = [1, 1, 1, 1, 1, 1, 1, 1, 1]"
  by (simp add: numeral_eq_Suc)

lemma Section_init_positionals:
  "[a_0 (Section_init x kw), dClda (Section_init x kw), Cl_max (Section_init x kw),
    Cl_min (Section_init x kw), dClda_stall (Section_init x kw), dCl_stall (Section_init x kw),
    Cd_min (Section_init x kw), Cl_Cd_min (Section_init x kw), dCddCl2 (Section_init x kw)]
   = take 9 x @ replicate (9 - length x) 0"
  using nine_positionals [of x] by (simp add: Section_init_def)

text \<open>
  Claim C5. Whenever \<^verbatim>\<open>fit_polar\<close> returns a Section, its nine fitted parameters
  \<open>a_0\<close>, \<open>dClda\<close>, \<open>Cl_max\<close>, \<open>Cl_min\<close>, \<open>dClda_stall\<close>, \<open>dCl_stall\<close>, \<open>Cd_min\<close>, \<open>Cl_Cd_min\<close>,
  \<open>dCddCl2\<close> are the vector that the minimiser returned when it was given the objective
  \<^verbatim>\<open>e\<close> over the first three columns of the table, the all-ones starting point and the
  nine bounds of the claim. On every vector of nine parameters whose lift slope and stall
  width are not 0, hence on every point of the box, \<^verbatim>\<open>e\<close> is the root-mean-square error
  of the model's lift at the table's angles against the table's lift column plus the
  root-mean-square error of the model's drag against the table's drag column.
\<close>

theorem minimized_error_is_rms_sum:
  assumes "fit_polar minimize newton polar = Inr s"
  shows "\<exists>a cl_col cd_col x.
      column polar 0 = Inr a \<and> column polar 1 = Inr cl_col \<and> column polar 2 = Inr cd_col
    \<and> minimize (fit_polar_e a cl_col cd_col) [1, 1, 1, 1, 1, 1, 1, 1, 1]
        [(- 10, 10), (1, 20), (0, 3), (- 3, 0), (- 2, 2), (0.1, 0.3), (0, 0.5), (- 1, 1), (0, 1)]
        = Inr x
    \<and> [a_0 s, dClda s, Cl_max s, Cl_min s, dClda_stall s, dCl_stall s, Cd_min s, Cl_Cd_min s, dCddCl2 s]
        = take 9 x @ replicate (9 - length x) 0
    \<and> (\<forall>y. length y = 9 \<and> y ! 1 \<noteq> 0 \<and> y ! 5 \<noteq> 0 \<longrightarrow>
          fit_polar_e a cl_col cd_col y
            = Inr (spec_rms (map (spec_cl (Section_init y Map.empty)) a) cl_col
                   + spec_rms (map (spec_cd (Section_init y Map.empty)) a) cd_col))"
proof -
  let ?a = "map (\<lambda>r. r ! 0) (rows polar)"
  let ?cl = "map (\<lambda>r. r ! 1) (rows polar)"
  let ?cd = "map (\<lambda>r. r ! 2) (rows polar)"
  from fit_polar_succeeds [OF assms] obtain x mcrit where
    cols: "2 < shape1 polar" and nonempty: "rows polar \<noteq> []"
    and res: "minimize (fit_polar_e ?a ?cl ?cd) (replicate 9 1) bounds = Inr x"
    and s: "s = Section_init x [''Cm_const'' \<mapsto> sum_list (map (\<lambda>r. r ! 4) (rows polar)) / real (length (rows polar)),
                          ''M_crit'' \<mapsto> mcrit]"
    by blast
  have c0: "column polar 0 = Inr ?a" and c1: "column polar 1 = Inr ?cl"
    and c2: "column polar 2 = Inr ?cd"
    using cols by (simp_all add: column_def)
  have params: "[a_0 s, dClda s, Cl_max s, Cl_min s, dClda_stall s, dCl_stall s, Cd_min s,
      Cl_Cd_min s, dCddCl2 s] = take 9 x @ replicate (9 - length x) 0"
    unfolding s by (rule Section_init_positionals)
  have objective: "fit_polar_e ?a ?cl ?cd y
      = Inr (spec_rms (map (spec_cl (Section_init y Map.empty)) ?a) ?cl
             + spec_rms (map (spec_cd (Section_init y Map.empty)) ?a) ?cd)"
    if y: "length y = 9 \<and> y ! 1 \<noteq> 0 \<and> y ! 5 \<noteq> 0" for y
  proof (rule fit_polar_e_run)
    show "dClda (Section_init y Map.empty) \<noteq> 0"
      using y by (simp add: Section_init_def positional_def)
    show "dCl_stall (Section_init y Map.empty) \<noteq> 0"
      using y by (simp add: Section_init_def positional_def)
  qed (use nonempty in simp_all)
  from c0 c1 c2 res params objective show ?thesis
    unfolding bounds_literal ones_literal by blast
qed

theorem minimized_error_is_rms_sum_witness:
  "fit_polar_e [- 5, 0, 5, 10, 15] [- 0.3, 0.1, 0.6, 0.95, 0.9] [0.01, 0.008, 0.012, 0.03, 0.06] fitted_x
     = Inr (spec_rms (map (spec_cl (Section_init fitted_x Map.empty)) [- 5, 0, 5, 10, 15])
              [- 0.3, 0.1, 0.6, 0.95, 0.9]
            + spec_rms (map (spec_cd (Section_init fitted_x Map.empty)) [- 5, 0, 5, 10, 15])
              [0.01, 0.008, 0.012, 0.03, 0.06])"
proof -
  have run: "fit_polar (minimize_returning fitted_x) (newton_returning 1) pressure_polar
      = Inr (Section_init fitted_x [''Cm_const'' \<mapsto> - 0.5, ''M_crit'' \<mapsto> 0.6])"
    by (rule fit_polar_pressure_polar)
  from minimized_error_is_rms_sum [OF run] obtain a cl_col cd_col where
    c0: "column pressure_polar 0 = Inr a" and c1: "column pressure_polar 1 = Inr cl_col"
    and c2: "column pressure_polar 2 = Inr cd_col"
    and objective: "\<forall>y. length y = 9 \<and> y ! 1 \<noteq> 0 \<and> y ! 5 \<noteq> 0 \<longrightarrow>
          fit_polar_e a cl_col cd_col y
            = Inr (spec_rms (map (spec_cl (Section_init y Map.empty)) a) cl_col
                   + spec_rms (map (spec_cd (Section_init y Map.empty)) a) cd_col)"
    by blast
  have a: "a = [- 5, 0, 5, 10, 15]" using c0 by (simp add: column_def pressure_polar_def)
  have cl_col: "cl_col = [- 0.3, 0.1, 0.6, 0.95, 0.9]"
    using c1 by (simp add: column_def pressure_polar_def)
  have cd_col: "cd_col = [0.01, 0.008, 0.012, 0.03, 0.06]"
    using c2 by (simp add: column_def pressure_polar_def)
  have "length fitted_x = 9 \<and> fitted_x ! 1 \<noteq> 0 \<and> fitted_x ! 5 \<noteq> 0"
    by (simp add: fitted_x_def)
  with objective show ?thesis
    unfolding a cl_col cd_col by blast
qed

subsection \<open>Fitting: the pressure samples\<close>


lemma drop_repeats_subset: "set (drop_repeats prev ps) \<subseteq> set ps"
  by (induction ps arbitrary: prev) auto





















subsection \<open>Fitting: the critical Mach number\<close>












end
